theory Spec2Isabelle
  imports Main
begin

section \<open>Values shared by the two source files\<close>

text \<open>
  The development embeds \<^verbatim>\<open>utils/udp_client.py\<close> (class \<^verbatim>\<open>UdpClient\<close>) and
  \<^verbatim>\<open>utils/network_manager.py\<close> (class \<^verbatim>\<open>NetworkManager\<close>).
  A Python \<^verbatim>\<open>bytes\<close> object is a list of 8-bit characters, a Python \<^verbatim>\<open>str\<close> is
  the list of its code points.  A leading underscore of a Python name is dropped, since an
  Isabelle name cannot start with one: \<^verbatim>\<open>_attempt_reconnect\<close> is \<open>attempt_reconnect\<close>.
\<close>

type_synonym bytes = "char list"
type_synonym pystr = "nat list"

text \<open>The exceptions that the embedded code can raise; all are subclasses of
  Python's \<^verbatim>\<open>Exception\<close>.  \<open>AttributeError\<close> carries the missing attribute's name.\<close>

datatype error =
    AttributeError string
  | OSError
  | ValueError
  | UnicodeDecodeError
  | CvError
  | RuntimeError

datatype level = INFO | WARNING | ERROR

text \<open>A call of the logger is identified by the source line it stands on.\<close>

datatype site = NetworkManagerPy nat | UdpClientPy nat

record QImage =
  qi_data :: "(char \<times> char \<times> char) list"
  qi_width :: nat
  qi_height :: nat
  qi_bytes_per_line :: nat

text \<open>Modelled from the spec: the class \<^verbatim>\<open>TcpClient\<close> of \<^verbatim>\<open>utils/tcp_client.py\<close>
  is absent.  Its connect is asynchronous, the result being observed through life-cycle
  events and not through a return value; so a call on the control client is an effect of
  the caller, returns normally, and runs no slot of the supervisor before it returns.  These
  are the methods that \<^verbatim>\<open>NetworkManager\<close> calls for their effect.\<close>

datatype tcp_call =
    Tcp_connect_to_server
  | Tcp_disconnect_from_server
  | Tcp_request_cctv_a
  | Tcp_request_cctv_b
  | Tcp_request_object_detail int
  | Tcp_request_map

text \<open>The three texts that accompany \<^verbatim>\<open>tcp_connection_status_changed\<close>
  (lines 96, 102 and 106 of \<^verbatim>\<open>network_manager.py\<close>).\<close>

datatype reason =
    Reason_tcp_connected
  | Reason_tcp_disconnected
  | Reason_tcp_error string

text \<open>Everything the code does to the world outside its own fields, in the order it does it:
  log lines, calls on the control client, and signal emissions.  \<open>'o\<close> is the absent class
  \<^verbatim>\<open>DetectedObject\<close>.\<close>

datatype 'o effect =
    Log level site
  | TcpCall tcp_call
  | Emit_object_detected 'o
  | Emit_tcp_connection_status_changed bool reason
  | Emit_udp_connection_status_changed bool string
  | Emit_frame_a_received QImage
  | Emit_frame_b_received QImage

fun is_frame_signal :: "'o effect \<Rightarrow> bool" where
  "is_frame_signal (Emit_frame_a_received q) = True"
| "is_frame_signal (Emit_frame_b_received q) = True"
| "is_frame_signal e = False"

fun is_udp_status_signal :: "'o effect \<Rightarrow> bool" where
  "is_udp_status_signal (Emit_udp_connection_status_changed b r) = True"
| "is_udp_status_signal e = False"

fun is_signal :: "'o effect \<Rightarrow> bool" where
  "is_signal (Log l s) = False"
| "is_signal (TcpCall c) = False"
| "is_signal e = True"

fun is_log_at :: "level \<Rightarrow> 'o effect \<Rightarrow> bool" where
  "is_log_at l (Log l' s) = (l = l')"
| "is_log_at l e = False"

fun is_connect_attempt :: "'o effect \<Rightarrow> bool" where
  "is_connect_attempt (TcpCall Tcp_connect_to_server) = True"
| "is_connect_attempt e = False"

text \<open>An effect that stems from \<^verbatim>\<open>udp_client.py\<close>: one of its log lines or one of
  the signals of the media client.\<close>

fun from_udp_client :: "'o effect \<Rightarrow> bool" where
  "from_udp_client (Log l (UdpClientPy n)) = True"
| "from_udp_client (Emit_udp_connection_status_changed b r) = True"
| "from_udp_client (Emit_frame_a_received q) = True"
| "from_udp_client (Emit_frame_b_received q) = True"
| "from_udp_client e = False"


section \<open>The media client: \<^verbatim>\<open>UdpClient\<close>\<close>

datatype sock = Unbound | Bound int

record thread =
  daemon :: bool
  started :: bool

text \<open>The fields assigned by \<^verbatim>\<open>UdpClient.__init__\<close> (lines 18 to 23); of the absent
  settings object only the port is read by the methods embedded here.\<close>

record UdpClient =
  udp_port :: int
  socket :: "sock option"
  is_running :: bool
  receive_thread :: "thread option"

definition UdpClient_init :: "int \<Rightarrow> UdpClient" where
  "UdpClient_init port =
     \<lparr>udp_port = port, socket = None, is_running = False, receive_thread = None\<rparr>"

text \<open>What the operating system does when \<^verbatim>\<open>connect\<close> runs: the first statement of
  its \<^verbatim>\<open>try\<close> block that raises, if any.\<close>

datatype sock_outcome = SocketRaises | BindRaises | StartRaises | AllOk

text \<open>\<^verbatim>\<open>UdpClient.connect\<close> (lines 25 to 42).  The fields assigned before the raising
  statement keep their new values; the result is the returned boolean.\<close>

fun connect :: "sock_outcome \<Rightarrow> UdpClient \<Rightarrow> bool \<times> 'o effect list \<times> UdpClient" where
  "connect SocketRaises u = (False, [Log ERROR (UdpClientPy 41)], u)"
| "connect BindRaises u =
     (False, [Log ERROR (UdpClientPy 41)], u\<lparr>socket := Some Unbound\<rparr>)"
| "connect StartRaises u =
     (False, [Log ERROR (UdpClientPy 41)],
      u\<lparr>socket := Some (Bound (udp_port u)), is_running := True,
        receive_thread := Some \<lparr>daemon = True, started = False\<rparr>\<rparr>)"
| "connect AllOk u =
     (True, [Log INFO (UdpClientPy 37)],
      u\<lparr>socket := Some (Bound (udp_port u)), is_running := True,
        receive_thread := Some \<lparr>daemon = True, started = True\<rparr>\<rparr>)"

text \<open>\<^verbatim>\<open>UdpClient.disconnect\<close> (lines 44 to 50).\<close>

definition disconnect :: "UdpClient \<Rightarrow> 'o effect list \<times> UdpClient" where
  "disconnect u =
     (let u1 = u\<lparr>is_running := False\<rparr>;
          u2 = (if socket u1 \<noteq> None then u1\<lparr>socket := None\<rparr> else u1)
      in ([Log INFO (UdpClientPy 50)], u2))"

text \<open>The names of the class-level signals that \<^verbatim>\<open>UdpClient\<close> declares
  (lines 15 and 16).\<close>

definition UdpClient_signals :: "string list" where
  "UdpClient_signals = [''frame_a_received'', ''frame_b_received'']"

definition UdpClient_signal :: "string \<Rightarrow> error + unit" where
  "UdpClient_signal name =
     (if name \<in> set UdpClient_signals then Inr () else Inl (AttributeError name))"

text \<open>The methods that \<^verbatim>\<open>NetworkManager\<close> invokes on \<^verbatim>\<open>self.udp_client\<close>.
  \<^verbatim>\<open>UdpClient\<close> defines \<^verbatim>\<open>connect\<close>, \<^verbatim>\<open>disconnect\<close> and
  \<^verbatim>\<open>_receive_frames\<close> only, and its base class \<^verbatim>\<open>QObject\<close> has no method named
  \<^verbatim>\<open>is_connected\<close>, \<^verbatim>\<open>start_streaming\<close> or \<^verbatim>\<open>stop_streaming\<close>: looking one of
  these up on an instance raises \<^verbatim>\<open>AttributeError\<close>.\<close>

datatype udp_method =
    M_connect sock_outcome
  | M_disconnect
  | M_is_connected
  | M_start_streaming
  | M_stop_streaming

datatype pyval = PyNone | PyBool bool

fun truthy :: "pyval \<Rightarrow> bool" where
  "truthy PyNone = False"
| "truthy (PyBool b) = b"

fun UdpClient_call ::
  "udp_method \<Rightarrow> UdpClient \<Rightarrow> (error + pyval) \<times> 'o effect list \<times> UdpClient" where
  "UdpClient_call (M_connect os) u =
     (case connect os u of (b, es, u') \<Rightarrow> (Inr (PyBool b), es, u'))"
| "UdpClient_call M_disconnect u =
     (case disconnect u of (es, u') \<Rightarrow> (Inr PyNone, es, u'))"
| "UdpClient_call M_is_connected u = (Inl (AttributeError ''is_connected''), [], u)"
| "UdpClient_call M_start_streaming u = (Inl (AttributeError ''start_streaming''), [], u)"
| "UdpClient_call M_stop_streaming u = (Inl (AttributeError ''stop_streaming''), [], u)"


subsection \<open>The receive loop\<close>

text \<open>Python's \<^verbatim>\<open>bytes.split(sep)\<close>: the pieces between the occurrences of \<open>sep\<close>,
  found from left to right without overlap.  \<open>cur\<close> is the piece being collected.  An empty
  separator raises \<^verbatim>\<open>ValueError\<close>.\<close>

function split_from :: "bytes \<Rightarrow> bytes \<Rightarrow> bytes \<Rightarrow> bytes list" where
  "split_from sep cur [] = [cur]"
| "split_from sep cur (x # xs) =
     (if sep \<noteq> [] \<and> take (length sep) (x # xs) = sep
      then cur # split_from sep [] (drop (length sep) (x # xs))
      else split_from sep (cur @ [x]) xs)"
  by pat_completeness auto
termination
  by (relation "measure (\<lambda>(sep, cur, rest). length rest)") (auto simp: neq_Nil_conv)

definition bytes_split :: "bytes \<Rightarrow> bytes \<Rightarrow> error + bytes list" where
  "bytes_split sep data = (if sep = [] then Inl ValueError else Inr (split_from sep [] data))"

text \<open>Python's \<^verbatim>\<open>bytes.decode('utf-8')\<close> with the default strict error handling:
  the code points of a well-formed UTF-8 sequence, or \<open>None\<close> where Python raises
  \<^verbatim>\<open>UnicodeDecodeError\<close> (a stray or missing continuation byte, an overlong form,
  a surrogate, a value above U+10FFFF).\<close>

definition cont :: "char \<Rightarrow> bool" where
  "cont c = (128 \<le> (of_char c :: nat) \<and> (of_char c :: nat) \<le> 191)"

definition low6 :: "char \<Rightarrow> nat" where
  "low6 c = (of_char c :: nat) mod 64"

fun utf8_decode :: "bytes \<Rightarrow> pystr option" where
  "utf8_decode [] = Some []"
| "utf8_decode (c # cs) =
     (let b = (of_char c :: nat) in
      if b < 128 then map_option ((#) b) (utf8_decode cs)
      else if 194 \<le> b \<and> b \<le> 223 then
        (case cs of
           c1 # r \<Rightarrow>
             if cont c1
             then map_option ((#) ((b mod 32) * 64 + low6 c1)) (utf8_decode r)
             else None
         | _ \<Rightarrow> None)
      else if 224 \<le> b \<and> b \<le> 239 then
        (case cs of
           c1 # c2 # r \<Rightarrow>
             if cont c1 \<and> cont c2
                \<and> (b = 224 \<longrightarrow> 160 \<le> (of_char c1 :: nat))
                \<and> (b = 237 \<longrightarrow> (of_char c1 :: nat) \<le> 159)
             then map_option ((#) ((b mod 16) * 4096 + low6 c1 * 64 + low6 c2))
                    (utf8_decode r)
             else None
         | _ \<Rightarrow> None)
      else if 240 \<le> b \<and> b \<le> 244 then
        (case cs of
           c1 # c2 # c3 # r \<Rightarrow>
             if cont c1 \<and> cont c2 \<and> cont c3
                \<and> (b = 240 \<longrightarrow> 144 \<le> (of_char c1 :: nat))
                \<and> (b = 244 \<longrightarrow> (of_char c1 :: nat) \<le> 143)
             then map_option
                    ((#) ((b mod 8) * 262144 + low6 c1 * 4096 + low6 c2 * 64 + low6 c3))
                    (utf8_decode r)
             else None
         | _ \<Rightarrow> None)
      else None)"

text \<open>A decoded image as \<^verbatim>\<open>cv2.imdecode\<close> with \<^verbatim>\<open>IMREAD_COLOR\<close> returns it: rows
  of three-channel pixels in the order blue, green, red.\<close>

record frame =
  fr_height :: nat
  fr_width :: nat
  fr_pixels :: "(char \<times> char \<times> char) list"

text \<open>What \<^verbatim>\<open>cv2.imdecode\<close> does on a payload: it raises \<^verbatim>\<open>cv2.error\<close> (on an
  empty buffer), returns \<^verbatim>\<open>None\<close> (the payload is not an image), or returns the image.
  The decoder itself is a library function and a parameter of the loop.\<close>

datatype decoded = CvRaises | CvNone | CvImage frame

definition cvtColor_BGR2RGB :: "frame \<Rightarrow> frame" where
  "cvtColor_BGR2RGB f = f\<lparr>fr_pixels := map (\<lambda>(b, g, r). (r, g, b)) (fr_pixels f)\<rparr>"

definition to_QImage :: "frame \<Rightarrow> QImage" where
  "to_QImage f =
     \<lparr>qi_data = fr_pixels f, qi_width = fr_width f, qi_height = fr_height f,
      qi_bytes_per_line = 3 * fr_width f\<rparr>"

text \<open>The result of a block of statements of the loop: the exception that leaves it, if
  any, and the effects performed before.\<close>

type_synonym 'o pass = "error option \<times> 'o effect list"

text \<open>Lines 59 to 86: what the body of the \<^verbatim>\<open>try\<close> block does with a received
  datagram.  \<open>sep\<close> is the encoded constant \<^verbatim>\<open>Constants.UDP_DATA_SEPARATOR\<close> of an
  absent module; the camera names \<^verbatim>\<open>'A'\<close> and \<^verbatim>\<open>'B'\<close> are the code points 65
  and 66.\<close>

definition handle_datagram ::
  "bytes \<Rightarrow> (bytes \<Rightarrow> decoded) \<Rightarrow> bytes \<Rightarrow> 'o pass" where
  "handle_datagram sep imdecode data =
     (case bytes_split sep data of
        Inl e \<Rightarrow> (Some e, [])
      | Inr parts \<Rightarrow>
          (case parts of
             [camera_id_bytes, image_data] \<Rightarrow>
               (case utf8_decode camera_id_bytes of
                  None \<Rightarrow> (Some UnicodeDecodeError, [])
                | Some camera_id \<Rightarrow>
                    (case imdecode image_data of
                       CvRaises \<Rightarrow> (Some CvError, [])
                     | CvNone \<Rightarrow> (None, [])
                     | CvImage fr \<Rightarrow>
                         (let q_image = to_QImage (cvtColor_BGR2RGB fr) in
                          if camera_id = [65] then (None, [Emit_frame_a_received q_image])
                          else if camera_id = [66] then (None, [Emit_frame_b_received q_image])
                          else (None, [Log WARNING (UdpClientPy 86)]))))
           | _ \<Rightarrow> (None, [])))"

text \<open>What \<^verbatim>\<open>self.socket.recvfrom\<close> does in one iteration: it raises (the socket
  was closed or is \<^verbatim>\<open>None\<close>) or delivers a datagram.\<close>

datatype recv = RecvRaises error | RecvData bytes

text \<open>\<^verbatim>\<open>except Exception\<close> catches an exception when its class derives from
  \<^verbatim>\<open>Exception\<close>.\<close>

fun is_Exception :: "error \<Rightarrow> bool" where
  "is_Exception (AttributeError a) = True"
| "is_Exception OSError = True"
| "is_Exception ValueError = True"
| "is_Exception UnicodeDecodeError = True"
| "is_Exception CvError = True"
| "is_Exception RuntimeError = True"

text \<open>One pass through the body of the \<^verbatim>\<open>while\<close> loop (lines 55 to 90): the
  \<^verbatim>\<open>try\<close> block with its handler.  The result is the exception that leaves the
  \<^verbatim>\<open>try\<close> statement uncaught, if any, and the effects of the pass.\<close>

definition iteration ::
  "bytes \<Rightarrow> (bytes \<Rightarrow> decoded) \<Rightarrow> recv \<Rightarrow> 'o pass" where
  "iteration sep imdecode r =
     (case (case r of
              RecvRaises e \<Rightarrow> (Some e, [])
            | RecvData data \<Rightarrow> handle_datagram sep imdecode data) of
        (None, es) \<Rightarrow> (None, es)
      | (Some e, es) \<Rightarrow>
          if is_Exception e then (None, es @ [Log ERROR (UdpClientPy 89)])
          else (Some e, es))"

text \<open>The loop runs in a thread of its own while \<^verbatim>\<open>disconnect\<close> may run in another.
  What the loop sees of the rest of the program in one iteration is a \<open>tick\<close>: the value of
  \<^verbatim>\<open>self.is_running\<close> when the loop condition reads it, and what \<^verbatim>\<open>recvfrom\<close> does
  if the body is entered.\<close>

record tick =
  running :: bool
  recv_outcome :: recv

text \<open>Where the loop stands after the ticks given to it: it left through its condition,
  an exception ended it, or it is still in the loop.\<close>

datatype loop_status = Exited | Died error | Looping

type_synonym 'o loop_run = "'o effect list \<times> loop_status"

text \<open>\<^verbatim>\<open>_receive_frames\<close> (lines 52 to 90) on a finite run of ticks.\<close>

fun receive_frames ::
  "bytes \<Rightarrow> (bytes \<Rightarrow> decoded) \<Rightarrow> tick list \<Rightarrow> 'o loop_run" where
  "receive_frames sep imdecode [] = ([], Looping)"
| "receive_frames sep imdecode (t # ts) =
     (if \<not> running t then ([], Exited)
      else
        (case iteration sep imdecode (recv_outcome t) of
           (Some e, es) \<Rightarrow> (es, Died e)
         | (None, es) \<Rightarrow>
             (case receive_frames sep imdecode ts of
                (es', st) \<Rightarrow> (es @ es', st))))"


section \<open>The supervisor: \<^verbatim>\<open>NetworkManager\<close>\<close>

record QTimer =
  active :: bool
  interval :: int

text \<open>The fields of \<^verbatim>\<open>NetworkManager\<close> that its methods read or assign.  The control
  client \<^verbatim>\<open>self.tcp_client\<close> is an absent class: calls on it are recorded as effects and
  the answer of its \<^verbatim>\<open>is_connected()\<close> is an argument of the method that asks.\<close>

record NetworkManager =
  udp_client :: UdpClient
  reconnect_timer :: QTimer
  reconnect_interval :: int
  max_reconnect_attempts :: int
  reconnect_attempts :: int

text \<open>A method body: it reads and assigns the fields, performs effects, and either returns
  a value or raises.  The assignments and effects made before a raise remain.\<close>

type_synonym ('o, 'a) act =
  "NetworkManager \<Rightarrow> (error + 'a) \<times> 'o effect list \<times> NetworkManager"

text \<open>The result of running a method that returns nothing.\<close>

type_synonym 'o run = "(error + unit) \<times> 'o effect list \<times> NetworkManager"

definition ret :: "'a \<Rightarrow> ('o, 'a) act" where
  "ret x s = (Inr x, [], s)"

definition and_then :: "('o, 'a) act \<Rightarrow> ('a \<Rightarrow> ('o, 'b) act) \<Rightarrow> ('o, 'b) act" where
  "and_then m f s =
     (case m s of
        (Inl e, es, s') \<Rightarrow> (Inl e, es, s')
      | (Inr x, es, s') \<Rightarrow> (case f x s' of (r, es', s'') \<Rightarrow> (r, es @ es', s'')))"

definition seq :: "('o, unit) act \<Rightarrow> ('o, 'b) act \<Rightarrow> ('o, 'b) act" where
  "seq m n = and_then m (\<lambda>_. n)"

definition perform :: "'o effect \<Rightarrow> ('o, unit) act" where
  "perform e s = (Inr (), [e], s)"

definition assign :: "(NetworkManager \<Rightarrow> NetworkManager) \<Rightarrow> ('o, unit) act" where
  "assign f s = (Inr (), [], f s)"

definition udp_invoke :: "udp_method \<Rightarrow> ('o, pyval) act" where
  "udp_invoke m s =
     (case UdpClient_call m (udp_client s) of
        (r, es, u') \<Rightarrow> (r, es, s\<lparr>udp_client := u'\<rparr>))"

definition outcome :: "(error + 'a) \<times> 'o effect list \<times> NetworkManager \<Rightarrow> error + 'a" where
  "outcome r = fst r"

definition effects :: "(error + 'a) \<times> 'o effect list \<times> NetworkManager \<Rightarrow> 'o effect list" where
  "effects r = fst (snd r)"

definition state :: "(error + 'a) \<times> 'o effect list \<times> NetworkManager \<Rightarrow> NetworkManager" where
  "state r = snd (snd r)"

text \<open>\<^verbatim>\<open>QTimer.stop()\<close> and \<^verbatim>\<open>QTimer.start(msec)\<close>.\<close>

definition timer_stop :: "('o, unit) act" where
  "timer_stop = assign (\<lambda>s. s\<lparr>reconnect_timer := (reconnect_timer s)\<lparr>active := False\<rparr>\<rparr>)"

definition timer_start :: "int \<Rightarrow> ('o, unit) act" where
  "timer_start msec =
     assign (\<lambda>s. s\<lparr>reconnect_timer := \<lparr>active = True, interval = msec\<rparr>\<rparr>)"

text \<open>\<^verbatim>\<open>_handle_object_detected\<close> (lines 110 to 113): the \<^verbatim>\<open>for\<close> loop over the
  batch.\<close>

fun handle_object_detected :: "'o list \<Rightarrow> ('o, unit) act" where
  "handle_object_detected [] = ret ()"
| "handle_object_detected (obj # objects) =
     seq (perform (Emit_object_detected obj)) (handle_object_detected objects)"

text \<open>\<^verbatim>\<open>_connect_signals\<close> (lines 39 to 62), as far as the media client is
  concerned: the three attribute look-ups on \<^verbatim>\<open>self.udp_client\<close>, in source order.\<close>

definition connect_signals :: "error + unit" where
  "connect_signals =
     (case UdpClient_signal ''frame_a_received'' of
        Inl e \<Rightarrow> Inl e
      | Inr _ \<Rightarrow>
          (case UdpClient_signal ''frame_b_received'' of
             Inl e \<Rightarrow> Inl e
           | Inr _ \<Rightarrow> UdpClient_signal ''connection_status_changed''))"

text \<open>\<^verbatim>\<open>NetworkManager.__init__\<close> (lines 25 to 37).  The arguments are the values
  read from the absent settings singleton: the media port, the reconnect interval in
  seconds and the maximal number of attempts.\<close>

definition NetworkManager_init :: "int \<Rightarrow> int \<Rightarrow> int \<Rightarrow> error + NetworkManager" where
  "NetworkManager_init port interval_s max_attempts =
     (case connect_signals of
        Inl e \<Rightarrow> Inl e
      | Inr _ \<Rightarrow>
          Inr \<lparr>udp_client = UdpClient_init port,
               reconnect_timer = \<lparr>active = False, interval = 0\<rparr>,
               reconnect_interval = interval_s * 1000,
               max_reconnect_attempts = max_attempts,
               reconnect_attempts = 0\<rparr>)"

text \<open>\<^verbatim>\<open>start_services\<close> (lines 64 to 68) and \<^verbatim>\<open>stop_services\<close>
  (lines 70 to 74).\<close>

definition start_services :: "('o, unit) act" where
  "start_services =
     seq (perform (Log INFO (NetworkManagerPy 66)))
         (perform (TcpCall Tcp_connect_to_server))"

definition stop_services :: "('o, unit) act" where
  "stop_services =
     seq (perform (Log INFO (NetworkManagerPy 72)))
    (seq (perform (TcpCall Tcp_disconnect_from_server))
         (and_then (udp_invoke M_disconnect) (\<lambda>_. ret ())))"

text \<open>\<^verbatim>\<open>_attempt_reconnect\<close> (lines 76 to 92), the slot of the reconnect timer.
  \<open>tcp_connected\<close> is what \<^verbatim>\<open>self.tcp_client.is_connected()\<close> answers, \<open>os\<close> what the
  operating system would do if \<^verbatim>\<open>self.udp_client.connect()\<close> ran.\<close>

definition attempt_reconnect :: "bool \<Rightarrow> sock_outcome \<Rightarrow> ('o, unit) act" where
  "attempt_reconnect tcp_connected os s =
     (if reconnect_attempts s \<ge> max_reconnect_attempts s then
        seq (perform (Log WARNING (NetworkManagerPy 79))) timer_stop s
      else
        seq (perform (Log INFO (NetworkManagerPy 83)))
       (seq (assign (\<lambda>s. s\<lparr>reconnect_attempts := reconnect_attempts s + 1\<rparr>))
       (seq (if \<not> tcp_connected then perform (TcpCall Tcp_connect_to_server) else ret ())
            (and_then (udp_invoke M_is_connected)
               (\<lambda>v. if \<not> truthy v
                    then and_then (udp_invoke (M_connect os)) (\<lambda>_. ret ())
                    else ret ())))) s)"

text \<open>The timer's \<^verbatim>\<open>timeout\<close> signal is connected to \<^verbatim>\<open>_attempt_reconnect\<close>
  (line 34).  A timer that is not active does not fire: then there is no run.\<close>

definition timer_fire ::
  "bool \<Rightarrow> sock_outcome \<Rightarrow> NetworkManager \<Rightarrow>
     ((error + unit) \<times> 'o effect list \<times> NetworkManager) option" where
  "timer_fire tcp_connected os s =
     (if active (reconnect_timer s) then Some (attempt_reconnect tcp_connected os s)
      else None)"

text \<open>The slots of the control client's life-cycle signals (lines 94 to 108).\<close>

definition on_tcp_connected :: "('o, unit) act" where
  "on_tcp_connected =
     seq (perform (Emit_tcp_connection_status_changed True Reason_tcp_connected))
    (seq timer_stop
         (assign (\<lambda>s. s\<lparr>reconnect_attempts := 0\<rparr>)))"

definition on_tcp_disconnected :: "('o, unit) act" where
  "on_tcp_disconnected =
     perform (Emit_tcp_connection_status_changed False Reason_tcp_disconnected)"

definition on_tcp_connection_error :: "string \<Rightarrow> ('o, unit) act" where
  "on_tcp_connection_error error_msg =
     seq (perform (Emit_tcp_connection_status_changed False (Reason_tcp_error error_msg)))
    (seq (assign (\<lambda>s. s\<lparr>reconnect_attempts := 0\<rparr>))
         (\<lambda>s. timer_start (reconnect_interval s) s))"

text \<open>\<^verbatim>\<open>_handle_map_response\<close> (lines 115 to 120); \<^verbatim>\<open>startswith\<close> is
  \<^const>\<open>take\<close> of the prefix's length.\<close>

definition handle_map_response :: "string \<Rightarrow> ('o, unit) act" where
  "handle_map_response response =
     (if take 2 response = ''OK'' then perform (Log INFO (NetworkManagerPy 118))
      else perform (Log ERROR (NetworkManagerPy 120)))"

text \<open>\<^verbatim>\<open>_handle_cctv_a_response\<close> (lines 122 to 130) and
  \<^verbatim>\<open>_handle_cctv_b_response\<close> (lines 132 to 140).\<close>

definition handle_cctv_a_response :: "string \<Rightarrow> sock_outcome \<Rightarrow> ('o, unit) act" where
  "handle_cctv_a_response response os =
     (if response = ''OK'' then
        seq (perform (Log INFO (NetworkManagerPy 125)))
       (seq (and_then (udp_invoke M_is_connected)
               (\<lambda>v. if \<not> truthy v
                    then and_then (udp_invoke (M_connect os)) (\<lambda>_. ret ())
                    else ret ()))
            (and_then (udp_invoke M_start_streaming) (\<lambda>_. ret ())))
      else perform (Log ERROR (NetworkManagerPy 130)))"

definition handle_cctv_b_response :: "string \<Rightarrow> sock_outcome \<Rightarrow> ('o, unit) act" where
  "handle_cctv_b_response response os =
     (if response = ''OK'' then
        seq (perform (Log INFO (NetworkManagerPy 135)))
       (seq (and_then (udp_invoke M_is_connected)
               (\<lambda>v. if \<not> truthy v
                    then and_then (udp_invoke (M_connect os)) (\<lambda>_. ret ())
                    else ret ()))
            (and_then (udp_invoke M_start_streaming) (\<lambda>_. ret ())))
      else perform (Log ERROR (NetworkManagerPy 140)))"

text \<open>The request methods called by the user interface (lines 143 to 163).  In
  \<^verbatim>\<open>request_map\<close> the test \<^verbatim>\<open>if self.udp_client:\<close> asks for the truth value of an
  object whose class defines neither \<^verbatim>\<open>__bool__\<close> nor \<^verbatim>\<open>__len__\<close>: it is true.\<close>

definition request_cctv_a :: "sock_outcome \<Rightarrow> ('o, unit) act" where
  "request_cctv_a os =
     seq (and_then (udp_invoke M_is_connected)
            (\<lambda>v. if \<not> truthy v
                 then and_then (udp_invoke (M_connect os)) (\<lambda>_. ret ())
                 else ret ()))
         (perform (TcpCall Tcp_request_cctv_a))"

definition request_cctv_b :: "sock_outcome \<Rightarrow> ('o, unit) act" where
  "request_cctv_b os =
     seq (and_then (udp_invoke M_is_connected)
            (\<lambda>v. if \<not> truthy v
                 then and_then (udp_invoke (M_connect os)) (\<lambda>_. ret ())
                 else ret ()))
         (perform (TcpCall Tcp_request_cctv_b))"

definition request_object_detail :: "int \<Rightarrow> ('o, unit) act" where
  "request_object_detail object_id = perform (TcpCall (Tcp_request_object_detail object_id))"

definition udp_client_truth_value :: "UdpClient \<Rightarrow> bool" where
  "udp_client_truth_value u = True"

definition request_map :: "('o, unit) act" where
  "request_map =
     seq (perform (TcpCall Tcp_request_map))
         (\<lambda>s. if udp_client_truth_value (udp_client s)
              then and_then (udp_invoke M_stop_streaming) (\<lambda>_. ret ()) s
              else ret () s)"

text \<open>Concrete states used to run the code: a supervisor whose media client was never
  connected, with the given timer state, ceiling and attempt count; and the same with a
  media client that is bound and receiving.\<close>

definition supervisor :: "bool \<Rightarrow> int \<Rightarrow> int \<Rightarrow> NetworkManager" where
  "supervisor timer_active max_attempts attempts =
     \<lparr>udp_client = UdpClient_init 5000,
      reconnect_timer = \<lparr>active = timer_active, interval = 5000\<rparr>,
      reconnect_interval = 5000,
      max_reconnect_attempts = max_attempts,
      reconnect_attempts = attempts\<rparr>"

definition receiving_client :: UdpClient where
  "receiving_client =
     \<lparr>udp_port = 5000, socket = Some (Bound 5000), is_running = True,
      receive_thread = Some \<lparr>daemon = True, started = True\<rparr>\<rparr>"

definition streaming_supervisor :: NetworkManager where
  "streaming_supervisor = (supervisor False 3 0)\<lparr>udp_client := receiving_client\<rparr>"

text \<open>A stand-in for the image decoder in concrete runs: the payload \<^verbatim>\<open>img\<close> is a
  one-pixel image, the empty payload makes the decoder raise, and nothing else is an
  image.\<close>

definition example_imdecode :: "bytes \<Rightarrow> decoded" where
  "example_imdecode payload =
     (if payload = ''img''
      then CvImage \<lparr>fr_height = 1, fr_width = 1,
                    fr_pixels = [(CHR ''b'', CHR ''g'', CHR ''r'')]\<rparr>
      else if payload = [] then CvRaises
      else CvNone)"


section \<open>Properties\<close>

lemma seq_perform:
  "seq (perform e) m s = (case m s of (r, es, s') \<Rightarrow> (r, e # es, s'))"
  by (simp add: seq_def and_then_def perform_def split: prod.splits)

lemma handle_object_detected_run:
  "handle_object_detected objects s = (Inr (), map Emit_object_detected objects, s)"
  by (induction objects) (simp_all add: ret_def seq_perform)

text \<open>
  C9.  For a batch of \<open>n\<close> objects received from the control channel,
  \<^verbatim>\<open>_handle_object_detected\<close> returns normally, leaves every field as it was and emits
  exactly \<open>n\<close> \<^verbatim>\<open>object_detected\<close> signals and nothing else: the signals are the
  objects of the batch, one each, in the order of the batch.
\<close>

theorem C9_object_batch_expanded:
  "outcome (handle_object_detected objects s) = Inr ()
   \<and> state (handle_object_detected objects s) = s
   \<and> effects (handle_object_detected objects s) = map Emit_object_detected objects
   \<and> length (effects (handle_object_detected objects s)) = length objects"
  by (simp add: handle_object_detected_run outcome_def effects_def state_def)


subsection \<open>The reconnect timer\<close>

lemmas act_simps =
  ret_def and_then_def seq_def perform_def assign_def udp_invoke_def
  timer_stop_def timer_start_def outcome_def effects_def state_def

lemma attempt_reconnect_at_ceiling:
  "max_reconnect_attempts s \<le> reconnect_attempts s \<Longrightarrow>
   attempt_reconnect tc os s =
     (Inr (), [Log WARNING (NetworkManagerPy 79)],
      s\<lparr>reconnect_timer := (reconnect_timer s)\<lparr>active := False\<rparr>\<rparr>)"
  by (simp add: attempt_reconnect_def act_simps)

lemma attempt_reconnect_below_ceiling:
  "reconnect_attempts s < max_reconnect_attempts s \<Longrightarrow>
   attempt_reconnect tc os s =
     (Inl (AttributeError ''is_connected''),
      Log INFO (NetworkManagerPy 83) # (if tc then [] else [TcpCall Tcp_connect_to_server]),
      s\<lparr>reconnect_attempts := reconnect_attempts s + 1\<rparr>)"
  by (simp add: attempt_reconnect_def act_simps)

lemma on_tcp_connected_run:
  "on_tcp_connected s =
     (Inr (), [Emit_tcp_connection_status_changed True Reason_tcp_connected],
      s\<lparr>reconnect_timer := (reconnect_timer s)\<lparr>active := False\<rparr>,
        reconnect_attempts := 0\<rparr>)"
  by (simp add: on_tcp_connected_def act_simps)

lemma on_tcp_connection_error_run:
  "on_tcp_connection_error msg s =
     (Inr (), [Emit_tcp_connection_status_changed False (Reason_tcp_error msg)],
      s\<lparr>reconnect_attempts := 0,
        reconnect_timer := \<lparr>active = True, interval = reconnect_interval s\<rparr>\<rparr>)"
  by (simp add: on_tcp_connection_error_def act_simps)

lemma fire_after_connection_error:
  "1 \<le> max_reconnect_attempts s \<Longrightarrow>
   timer_fire False os (state (on_tcp_connection_error msg s :: 'o run)) =
     Some (Inl (AttributeError ''is_connected''),
           [Log INFO (NetworkManagerPy 83), TcpCall Tcp_connect_to_server :: 'o effect],
           s\<lparr>reconnect_attempts := 1,
             reconnect_timer := \<lparr>active = True, interval = reconnect_interval s\<rparr>\<rparr>)"
  by (simp add: on_tcp_connection_error_run state_def timer_fire_def attempt_reconnect_def
        act_simps)

text \<open>
  C1.  The code at a failing input: the ceiling is 1, the one attempt has been made (the
  count is 1, the timer still armed) and no connect has succeeded.  Left alone, the guard of
  lines 78 to 81 does what the claim says: the next fire finds the count at the ceiling,
  makes no connect attempt and stops the timer.  But the failed attempt reaches the
  supervisor as \<^verbatim>\<open>connection_error\<close>, and its slot sets the count back to 0 and
  starts the timer (lines 107 and 108), whether the timer was still armed or already
  stopped at the ceiling.  The fire that follows finds the count below the ceiling and calls
  \<^verbatim>\<open>connect_to_server\<close>: a second connect attempt under a ceiling of 1, with no
  successful connect and no restart of the services.  Its result state is the state the
  round began with.
\<close>

theorem C1_connection_error_undoes_ceiling:
  "max_reconnect_attempts (supervisor True 1 1) = 1
   \<and> reconnect_attempts (supervisor True 1 1) = 1
   \<and> timer_fire False AllOk (supervisor True 1 1) =
       Some (Inr (), [Log WARNING (NetworkManagerPy 79) :: unit effect], supervisor False 1 1)
   \<and> (on_tcp_connection_error ''refused'' (supervisor True 1 1) :: unit run) =
       (Inr (), [Emit_tcp_connection_status_changed False (Reason_tcp_error ''refused'')],
        supervisor True 1 0)
   \<and> (on_tcp_connection_error ''refused'' (supervisor False 1 1) :: unit run) =
       (Inr (), [Emit_tcp_connection_status_changed False (Reason_tcp_error ''refused'')],
        supervisor True 1 0)
   \<and> timer_fire False AllOk (supervisor True 1 0) =
       Some (Inl (AttributeError ''is_connected''),
             [Log INFO (NetworkManagerPy 83), TcpCall Tcp_connect_to_server :: unit effect],
             supervisor True 1 1)
   \<and> filter is_connect_attempt
         [Log INFO (NetworkManagerPy 83), TcpCall Tcp_connect_to_server :: unit effect] =
       [TcpCall Tcp_connect_to_server]"
  by (simp add: timer_fire_def attempt_reconnect_def on_tcp_connection_error_def
        supervisor_def act_simps)

subsection \<open>Stopping the services\<close>

lemma stop_services_run:
  "stop_services s =
     (Inr (),
      [Log INFO (NetworkManagerPy 72), TcpCall Tcp_disconnect_from_server,
       Log INFO (UdpClientPy 50)],
      s\<lparr>udp_client := (udp_client s)\<lparr>is_running := False, socket := None\<rparr>\<rparr>)"
  by (cases "socket (udp_client s)") (simp_all add: stop_services_def disconnect_def act_simps)

lemma stop_services_keeps_timer:
  "reconnect_timer (state (stop_services s)) = reconnect_timer s
   \<and> reconnect_attempts (state (stop_services s)) = reconnect_attempts s"
  by (simp add: stop_services_run state_def)

text \<open>
  C2.  The code at a failing input: the control connection has failed, so the reconnect
  timer is armed (ceiling 3, count 0), and the media client is receiving.  Then
  \<^verbatim>\<open>stop_services\<close> disconnects both clients and leaves the timer as it was, armed; the
  timer fires next and the fire calls \<^verbatim>\<open>connect_to_server\<close> on the control client.
\<close>

theorem C2_stop_services_leaves_timer_armed:
  "stop_services ((supervisor True 3 0)\<lparr>udp_client := receiving_client\<rparr>) =
     (Inr (),
      [Log INFO (NetworkManagerPy 72), TcpCall Tcp_disconnect_from_server,
       Log INFO (UdpClientPy 50) :: unit effect],
      (supervisor True 3 0)
        \<lparr>udp_client := receiving_client\<lparr>is_running := False, socket := None\<rparr>\<rparr>)
   \<and> active (reconnect_timer
        (state (stop_services ((supervisor True 3 0)\<lparr>udp_client := receiving_client\<rparr>)
                  :: unit run)))
   \<and> timer_fire False AllOk
        (state (stop_services ((supervisor True 3 0)\<lparr>udp_client := receiving_client\<rparr>)
                  :: unit run)) =
       Some (Inl (AttributeError ''is_connected''),
             [Log INFO (NetworkManagerPy 83), TcpCall Tcp_connect_to_server :: unit effect],
             (supervisor True 3 1)
               \<lparr>udp_client := receiving_client\<lparr>is_running := False, socket := None\<rparr>\<rparr>)"
  by (simp add: stop_services_run state_def timer_fire_def attempt_reconnect_def
        supervisor_def receiving_client_def act_simps)

subsection \<open>The ceiling of the reconnect policy\<close>

lemma timer_not_armed_by_others:
  "\<not> active (reconnect_timer s) \<Longrightarrow>
   \<not> active (reconnect_timer (state (start_services s :: 'o run)))
   \<and> \<not> active (reconnect_timer (state (stop_services s :: 'o run)))
   \<and> \<not> active (reconnect_timer (state (attempt_reconnect tc os s :: 'o run)))
   \<and> \<not> active (reconnect_timer (state (on_tcp_connected s :: 'o run)))
   \<and> \<not> active (reconnect_timer (state (on_tcp_disconnected s :: 'o run)))
   \<and> \<not> active (reconnect_timer (state (handle_object_detected objects s :: 'o run)))
   \<and> \<not> active (reconnect_timer (state (handle_map_response response s :: 'o run)))
   \<and> \<not> active (reconnect_timer (state (handle_cctv_a_response response os s :: 'o run)))
   \<and> \<not> active (reconnect_timer (state (handle_cctv_b_response response os s :: 'o run)))
   \<and> \<not> active (reconnect_timer (state (request_cctv_a os s :: 'o run)))
   \<and> \<not> active (reconnect_timer (state (request_cctv_b os s :: 'o run)))
   \<and> \<not> active (reconnect_timer (state (request_object_detail object_id s :: 'o run)))
   \<and> \<not> active (reconnect_timer (state (request_map s :: 'o run)))"
  by (simp add: start_services_def stop_services_run attempt_reconnect_def
        on_tcp_connected_run on_tcp_disconnected_def handle_object_detected_run
        handle_map_response_def handle_cctv_a_response_def handle_cctv_b_response_def
        request_cctv_a_def request_cctv_b_def request_object_detail_def request_map_def
        udp_client_truth_value_def act_simps)

text \<open>
  C3, as the claim states it, fails: the fire that finds the count at the ceiling performs
  one effect only, the warning of line 79.  No signal is emitted, so no status event
  reaches a subscriber.  Nor is the stop permanent: the slot of a control-channel connection
  error arms the stopped timer, without a call of \<^verbatim>\<open>start_services\<close>.
\<close>

theorem C3_no_status_event_counterexample:
  "timer_fire False AllOk (supervisor True 3 3) =
     Some (Inr (), [Log WARNING (NetworkManagerPy 79) :: unit effect], supervisor False 3 3)
   \<and> filter is_signal [Log WARNING (NetworkManagerPy 79) :: unit effect] = []
   \<and> active (reconnect_timer
        (state (on_tcp_connection_error ''refused'' (supervisor False 3 3) :: unit run)))"
  by (simp add: timer_fire_def attempt_reconnect_def on_tcp_connection_error_def
        supervisor_def act_simps)

text \<open>
  C3, amended.  When a reconnect timer fire finds that the attempt count has reached the
  configured maximum, the supervisor stops the timer, changes nothing else and reports the
  condition as a warning-level log line only: it emits no signal and calls nothing on
  either client.  The stopped timer cannot fire, and no method or slot of the supervisor
  other than the slot of a control-channel connection error arms it:
  \<^verbatim>\<open>start_services\<close> does not.
\<close>

theorem C3_ceiling_is_logged_only:
  assumes at: "max_reconnect_attempts s \<le> reconnect_attempts s"
  shows "(attempt_reconnect tc os s :: 'o run) =
       (Inr (), [Log WARNING (NetworkManagerPy 79)],
        s\<lparr>reconnect_timer := (reconnect_timer s)\<lparr>active := False\<rparr>\<rparr>)
     \<and> filter is_signal (effects (attempt_reconnect tc os s :: 'o run)) = []
     \<and> (timer_fire tc' os' (state (attempt_reconnect tc os s :: 'o run)) :: 'o run option)
         = None
     \<and> \<not> active (reconnect_timer
            (state (start_services (state (attempt_reconnect tc os s :: 'o run)) :: 'o run)))
     \<and> \<not> active (reconnect_timer
            (state (stop_services (state (attempt_reconnect tc os s :: 'o run)) :: 'o run)))
     \<and> \<not> active (reconnect_timer
            (state (on_tcp_connected (state (attempt_reconnect tc os s :: 'o run)) :: 'o run)))
     \<and> \<not> active (reconnect_timer
            (state (on_tcp_disconnected (state (attempt_reconnect tc os s :: 'o run))
                      :: 'o run)))
     \<and> \<not> active (reconnect_timer
            (state (handle_object_detected objects
                      (state (attempt_reconnect tc os s :: 'o run)) :: 'o run)))
     \<and> \<not> active (reconnect_timer
            (state (handle_map_response response
                      (state (attempt_reconnect tc os s :: 'o run)) :: 'o run)))
     \<and> \<not> active (reconnect_timer
            (state (handle_cctv_a_response response os'
                      (state (attempt_reconnect tc os s :: 'o run)) :: 'o run)))
     \<and> \<not> active (reconnect_timer
            (state (handle_cctv_b_response response os'
                      (state (attempt_reconnect tc os s :: 'o run)) :: 'o run)))
     \<and> \<not> active (reconnect_timer
            (state (request_cctv_a os' (state (attempt_reconnect tc os s :: 'o run))
                      :: 'o run)))
     \<and> \<not> active (reconnect_timer
            (state (request_cctv_b os' (state (attempt_reconnect tc os s :: 'o run))
                      :: 'o run)))
     \<and> \<not> active (reconnect_timer
            (state (request_object_detail object_id
                      (state (attempt_reconnect tc os s :: 'o run)) :: 'o run)))
     \<and> \<not> active (reconnect_timer
            (state (request_map (state (attempt_reconnect tc os s :: 'o run)) :: 'o run)))"
proof -
  let ?s' = "s\<lparr>reconnect_timer := (reconnect_timer s)\<lparr>active := False\<rparr>\<rparr>"
  have run: "(attempt_reconnect tc os s :: 'o run) =
      (Inr (), [Log WARNING (NetworkManagerPy 79)], ?s')"
    by (rule attempt_reconnect_at_ceiling [OF at])
  then have st: "state (attempt_reconnect tc os s :: 'o run) = ?s'"
    by (simp add: state_def)
  have quiet: "filter is_signal (effects (attempt_reconnect tc os s :: 'o run)) = []"
    by (simp add: run effects_def)
  have off: "\<not> active (reconnect_timer ?s')"
    by simp
  then have dead: "(timer_fire tc' os' ?s' :: 'o run option) = None"
    by (simp add: timer_fire_def)
  note stays = timer_not_armed_by_others [OF off, where ?'o = 'o]
  show ?thesis
    unfolding st using run quiet dead stays by blast
qed

theorem C3_ceiling_is_logged_only_witness:
  "(attempt_reconnect False AllOk (supervisor True 3 3) :: unit run) =
     (Inr (), [Log WARNING (NetworkManagerPy 79)], supervisor False 3 3)
   \<and> (timer_fire False AllOk (supervisor False 3 3) :: unit run option) = None
   \<and> \<not> active (reconnect_timer (state (start_services (supervisor False 3 3) :: unit run)))"
proof -
  have at: "max_reconnect_attempts (supervisor True 3 3) \<le> reconnect_attempts (supervisor True 3 3)"
    by (simp add: supervisor_def)
  have eq: "(supervisor True 3 3)
              \<lparr>reconnect_timer := (reconnect_timer (supervisor True 3 3))\<lparr>active := False\<rparr>\<rparr>
            = supervisor False 3 3"
    by (simp add: supervisor_def)
  from C3_ceiling_is_logged_only [OF at, where tc = False and os = AllOk
      and tc' = False and os' = AllOk and ?'o = unit]
  have run: "(attempt_reconnect False AllOk (supervisor True 3 3) :: unit run) =
       (Inr (), [Log WARNING (NetworkManagerPy 79)],
        (supervisor True 3 3)
          \<lparr>reconnect_timer := (reconnect_timer (supervisor True 3 3))\<lparr>active := False\<rparr>\<rparr>)"
    and off: "(timer_fire False AllOk
                (state (attempt_reconnect False AllOk (supervisor True 3 3) :: unit run))
                :: unit run option) = None"
    and restart: "\<not> active (reconnect_timer
            (state (start_services
                      (state (attempt_reconnect False AllOk (supervisor True 3 3) :: unit run))
                    :: unit run)))"
    by blast+
  from run have "state (attempt_reconnect False AllOk (supervisor True 3 3) :: unit run)
      = supervisor False 3 3"
    by (simp add: state_def eq)
  with run off restart show ?thesis
    by (simp add: eq)
qed

subsection \<open>The timer and the media channel\<close>

lemma attempt_reconnect_media_untouched:
  "udp_client (state (attempt_reconnect tc os s :: 'o run)) = udp_client s
   \<and> filter from_udp_client (effects (attempt_reconnect tc os s :: 'o run)) = []"
proof (cases "reconnect_attempts s < max_reconnect_attempts s")
  case True
  then show ?thesis
    by (simp add: attempt_reconnect_below_ceiling state_def effects_def)
next
  case False
  then have "max_reconnect_attempts s \<le> reconnect_attempts s" by simp
  then show ?thesis
    by (simp add: attempt_reconnect_at_ceiling state_def effects_def)
qed

text \<open>
  C4.  A reconnect timer fire never runs \<^verbatim>\<open>connect\<close> of the media client: whatever
  the state and the environment, no effect of the fire stems from \<^verbatim>\<open>udp_client.py\<close>
  (every run of \<^verbatim>\<open>UdpClient.connect\<close> writes a log line there) and the media client's
  fields are the same before and after.  Lines 90 to 92 of the slot do ask the media client
  \<^verbatim>\<open>is_connected()\<close> first; \<^verbatim>\<open>UdpClient\<close> defines no such method, so below the
  ceiling the slot ends there with \<^verbatim>\<open>AttributeError\<close>, before \<^verbatim>\<open>connect()\<close>.
  Nor does any other slot of a control-channel event or \<^verbatim>\<open>start_services\<close> touch the
  media client.
\<close>

theorem C4_timer_fire_leaves_media_channel:
  "udp_client (state (attempt_reconnect tc os s :: 'o run)) = udp_client s
   \<and> filter from_udp_client (effects (attempt_reconnect tc os s :: 'o run)) = []
   \<and> udp_client (state (start_services s :: 'o run)) = udp_client s
   \<and> udp_client (state (on_tcp_connected s :: 'o run)) = udp_client s
   \<and> udp_client (state (on_tcp_disconnected s :: 'o run)) = udp_client s
   \<and> udp_client (state (on_tcp_connection_error msg s :: 'o run)) = udp_client s
   \<and> udp_client (state (handle_map_response response s :: 'o run)) = udp_client s
   \<and> udp_client (state (handle_object_detected objects s :: 'o run)) = udp_client s"
proof -
  have fire: "udp_client (state (attempt_reconnect tc os s :: 'o run)) = udp_client s
      \<and> filter from_udp_client (effects (attempt_reconnect tc os s :: 'o run)) = []"
    by (rule attempt_reconnect_media_untouched)
  have others: "udp_client (state (start_services s :: 'o run)) = udp_client s
      \<and> udp_client (state (on_tcp_connected s :: 'o run)) = udp_client s
      \<and> udp_client (state (on_tcp_disconnected s :: 'o run)) = udp_client s
      \<and> udp_client (state (on_tcp_connection_error msg s :: 'o run)) = udp_client s
      \<and> udp_client (state (handle_map_response response s :: 'o run)) = udp_client s
      \<and> udp_client (state (handle_object_detected objects s :: 'o run)) = udp_client s"
    by (simp add: on_tcp_connected_run on_tcp_connection_error_run
          handle_object_detected_run start_services_def on_tcp_disconnected_def
          handle_map_response_def state_def seq_def and_then_def perform_def)
  from fire others show ?thesis by blast
qed

subsection \<open>CCTV requests and their responses\<close>

lemma request_cctv_run:
  "(request_cctv_a os s :: 'o run) = (Inl (AttributeError ''is_connected''), [], s)
   \<and> (request_cctv_b os s :: 'o run) = (Inl (AttributeError ''is_connected''), [], s)"
  by (simp add: request_cctv_a_def request_cctv_b_def act_simps)

lemma handle_cctv_response_denied:
  "response \<noteq> ''OK'' \<Longrightarrow>
   (handle_cctv_a_response response os s :: 'o run) =
     (Inr (), [Log ERROR (NetworkManagerPy 130)], s)
   \<and> (handle_cctv_b_response response os s :: 'o run) =
     (Inr (), [Log ERROR (NetworkManagerPy 140)], s)"
  by (simp add: handle_cctv_a_response_def handle_cctv_b_response_def perform_def)

text \<open>
  C6.  The code at the failing input: the response \<^verbatim>\<open>OK\<close>, in any state.  The slot
  writes its log line and asks the media client \<^verbatim>\<open>is_connected()\<close>, which
  \<^verbatim>\<open>UdpClient\<close> does not define: the slot ends with \<^verbatim>\<open>AttributeError\<close>.  The media
  client is neither connected nor put into a streaming mode; its fields are unchanged.
  (On any other response the slot only writes the error line, as
  \<open>handle_cctv_response_denied\<close> shows.)
\<close>

theorem C6_cctv_approval_raises:
  "(handle_cctv_a_response ''OK'' os s :: 'o run) =
     (Inl (AttributeError ''is_connected''), [Log INFO (NetworkManagerPy 125)], s)
   \<and> (handle_cctv_b_response ''OK'' os s :: 'o run) =
     (Inl (AttributeError ''is_connected''), [Log INFO (NetworkManagerPy 135)], s)"
  by (simp add: handle_cctv_a_response_def handle_cctv_b_response_def act_simps)

subsection \<open>The receive loop\<close>

lemma is_Exception_all: "is_Exception e"
  by (cases e) simp_all

lemma iteration_never_raises: "fst (iteration sep imdecode r) = None"
  by (simp add: iteration_def is_Exception_all split: recv.splits prod.splits option.splits)

lemma iteration_recv_raises:
  "iteration sep imdecode (RecvRaises e) = (None, [Log ERROR (UdpClientPy 89)])"
  by (simp add: iteration_def is_Exception_all)

lemma iteration_data:
  "iteration sep imdecode (RecvData data) =
     (case handle_datagram sep imdecode data of
        (None, es) \<Rightarrow> (None, es)
      | (Some e, es) \<Rightarrow> (None, es @ [Log ERROR (UdpClientPy 89)]))"
  by (simp add: iteration_def is_Exception_all split: prod.splits option.splits)

lemma receive_frames_step:
  "running t \<Longrightarrow>
   (receive_frames sep imdecode (t # ts) :: 'o loop_run) =
     (snd (iteration sep imdecode (recv_outcome t) :: 'o pass)
        @ fst (receive_frames sep imdecode ts :: 'o loop_run),
      snd (receive_frames sep imdecode ts :: 'o loop_run))"
proof -
  assume run: "running t"
  obtain a and es :: "'o effect list"
    where it: "iteration sep imdecode (recv_outcome t) = (a, es)"
    by (cases "iteration sep imdecode (recv_outcome t) :: 'o pass")
  with iteration_never_raises [of sep imdecode "recv_outcome t", where ?'a = 'o]
  have none: "a = None"
    by simp
  obtain es' :: "'o effect list" and st where rest: "receive_frames sep imdecode ts = (es', st)"
    by (cases "receive_frames sep imdecode ts :: 'o loop_run")
  from run it none rest show ?thesis by simp
qed

lemma receive_frames_status:
  "snd (receive_frames sep imdecode ts :: 'o loop_run) =
     (if list_all running ts then Looping else Exited)"
proof (induction ts)
  case Nil
  show ?case by simp
next
  case (Cons t ts)
  show ?case
  proof (cases "running t")
    case True
    then show ?thesis using Cons.IH by (simp only: receive_frames_step) simp
  next
    case False
    then show ?thesis by simp
  qed
qed

lemma receive_frames_effects:
  "fst (receive_frames sep imdecode ts :: 'o loop_run) =
     concat (map (\<lambda>t. snd (iteration sep imdecode (recv_outcome t) :: 'o pass))
               (takeWhile running ts))"
proof (induction ts)
  case Nil
  show ?case by simp
next
  case (Cons t ts)
  show ?case
  proof (cases "running t")
    case True
    then show ?thesis using Cons.IH by (simp only: receive_frames_step) simp
  next
    case False
    then show ?thesis by simp
  qed
qed

text \<open>
  C10.  Whatever \<^verbatim>\<open>recvfrom\<close> and the decoders do, no pass through the loop body lets
  an exception out: a raising \<^verbatim>\<open>recvfrom\<close> is logged at line 89 and the loop goes on.
  On any run of ticks the loop is never ended by an exception; it has left exactly when one
  of the ticks read \<^verbatim>\<open>is_running\<close> as false, the value that \<^verbatim>\<open>disconnect\<close>
  assigns, and until then every tick's datagram was handled, in order.
\<close>

theorem C10_loop_ends_by_flag_only:
  "fst (iteration sep imdecode r :: 'o pass) = None
   \<and> (iteration sep imdecode (RecvRaises e) :: 'o pass) =
       (None, [Log ERROR (UdpClientPy 89)])
   \<and> snd (receive_frames sep imdecode ts :: 'o loop_run) \<noteq> Died e'
   \<and> \<not> is_running (snd (disconnect u :: 'o effect list \<times> UdpClient))
   \<and> (snd (receive_frames sep imdecode ts :: 'o loop_run) = Exited)
       = (\<not> list_all running ts)
   \<and> (snd (receive_frames sep imdecode ts :: 'o loop_run) = Looping)
       = list_all running ts
   \<and> fst (receive_frames sep imdecode ts :: 'o loop_run) =
       concat (map (\<lambda>t. snd (iteration sep imdecode (recv_outcome t) :: 'o pass))
                 (takeWhile running ts))"
  by (simp add: iteration_never_raises iteration_recv_raises receive_frames_status
        receive_frames_effects disconnect_def Let_def)

text \<open>The three kinds of failure on concrete datagrams, with separator \<^verbatim>\<open>|\<close>: a
  raising \<^verbatim>\<open>recvfrom\<close>, a camera name that is not UTF-8 (the byte 255), and a payload
  on which the image decoder raises.  Each is logged at line 89; the loop handles the
  datagram that follows and leaves when the flag is false.\<close>

lemma receive_frames_example:
  "receive_frames ''|'' example_imdecode
     [\<lparr>running = True, recv_outcome = RecvRaises OSError\<rparr>,
      \<lparr>running = True, recv_outcome = RecvData [CHR 0xFF, CHR ''|'', CHR ''x'']\<rparr>,
      \<lparr>running = True, recv_outcome = RecvData ''A|''\<rparr>,
      \<lparr>running = True, recv_outcome = RecvData ''B|img''\<rparr>,
      \<lparr>running = False, recv_outcome = RecvRaises (AttributeError ''recvfrom'')\<rparr>] =
     ([Log ERROR (UdpClientPy 89), Log ERROR (UdpClientPy 89), Log ERROR (UdpClientPy 89),
       Emit_frame_b_received
         \<lparr>qi_data = [(CHR ''r'', CHR ''g'', CHR ''b'')], qi_width = 1, qi_height = 1,
          qi_bytes_per_line = 3\<rparr> :: unit effect],
      Exited)"
  by (simp add: iteration_def handle_datagram_def bytes_split_def example_imdecode_def
        cont_def low6_def to_QImage_def cvtColor_BGR2RGB_def)

subsection \<open>Datagrams that are not frames of a known camera\<close>

lemma handle_datagram_wrong_parts:
  "bytes_split sep data = Inr parts \<Longrightarrow> length parts \<noteq> 2 \<Longrightarrow>
   (handle_datagram sep imdecode data :: 'o pass) = (None, [])"
  by (auto simp: handle_datagram_def split: list.splits)

lemma handle_datagram_two_parts:
  "bytes_split sep data = Inr [cid, payload] \<Longrightarrow>
   (handle_datagram sep imdecode data :: 'o pass) =
     (case utf8_decode cid of
        None \<Rightarrow> (Some UnicodeDecodeError, [])
      | Some camera_id \<Rightarrow>
          (case imdecode payload of
             CvRaises \<Rightarrow> (Some CvError, [])
           | CvNone \<Rightarrow> (None, [])
           | CvImage fr \<Rightarrow>
               if camera_id = [65]
               then (None, [Emit_frame_a_received (to_QImage (cvtColor_BGR2RGB fr))])
               else if camera_id = [66]
               then (None, [Emit_frame_b_received (to_QImage (cvtColor_BGR2RGB fr))])
               else (None, [Log WARNING (UdpClientPy 86)])))"
  by (simp add: handle_datagram_def Let_def split: option.splits decoded.splits)

lemma no_frame_unless_known_camera:
  assumes "\<And>cid payload. bytes_split sep data = Inr [cid, payload] \<Longrightarrow>
             utf8_decode cid \<noteq> Some [65] \<and> utf8_decode cid \<noteq> Some [66]"
  shows "filter is_frame_signal (snd (iteration sep imdecode (RecvData data) :: 'o pass)) = []"
proof (cases "bytes_split sep data")
  case (Inl e)
  then show ?thesis
    by (simp add: iteration_data handle_datagram_def)
next
  case (Inr parts)
  show ?thesis
  proof (cases "length parts = 2")
    case False
    with Inr show ?thesis
      by (simp add: iteration_data handle_datagram_wrong_parts)
  next
    case True
    then obtain cid payload where parts: "parts = [cid, payload]"
      by (cases parts; cases "tl parts") auto
    with Inr have two: "bytes_split sep data = Inr [cid, payload]" by simp
    from assms [OF two] show ?thesis
      by (simp add: iteration_data handle_datagram_two_parts [OF two]
            split: option.splits decoded.splits)
  qed
qed

text \<open>
  C5, as the claim states it, fails: a datagram without separator is dropped without any
  log line.  With separator \<^verbatim>\<open>|\<close> the datagram \<^verbatim>\<open>AB\<close> splits into one part, and the
  pass through the loop body performs no effect at all, so no warning is logged.
\<close>

theorem C5_silent_drop_counterexample:
  "bytes_split ''|'' ''AB'' = Inr [''AB'']
   \<and> (iteration ''|'' example_imdecode (RecvData ''AB'') :: unit pass) = (None, [])
   \<and> filter (is_log_at WARNING) ([] :: unit effect list) = []"
  by (simp add: iteration_def handle_datagram_def bytes_split_def)

text \<open>
  C5, amended.  For every received datagram that does not split into exactly one camera
  name and one payload around the separator, or whose camera name is not \<^verbatim>\<open>A\<close> or
  \<^verbatim>\<open>B\<close>, the media client emits no frame signal, no exception leaves the pass through
  the loop body, and the loop goes on with the ticks that follow.  What is logged depends on
  the datagram: a number of parts other than two is dropped without any log line; a failing
  split (empty separator) or a camera name that is not valid UTF-8 gives the error-level
  line 89; a well-formed unknown camera name gives the warning-level line 86 only when the
  payload decodes to an image, nothing when the decoder returns nothing, and the
  error-level line when the decoder raises.
\<close>

theorem C5_invalid_datagram_dropped:
  "((\<forall>cid payload. bytes_split sep data = Inr [cid, payload] \<longrightarrow>
        utf8_decode cid \<noteq> Some [65] \<and> utf8_decode cid \<noteq> Some [66]) \<longrightarrow>
      filter is_frame_signal (snd (iteration sep imdecode (RecvData data) :: 'o pass)) = []
      \<and> fst (iteration sep imdecode (RecvData data) :: 'o pass) = None
      \<and> (receive_frames sep imdecode (\<lparr>running = True, recv_outcome = RecvData data\<rparr> # ts)
            :: 'o loop_run) =
          (snd (iteration sep imdecode (RecvData data) :: 'o pass)
             @ fst (receive_frames sep imdecode ts :: 'o loop_run),
           snd (receive_frames sep imdecode ts :: 'o loop_run)))
   \<and> (bytes_split sep data = Inr parts \<and> length parts \<noteq> 2 \<longrightarrow>
        (iteration sep imdecode (RecvData data) :: 'o pass) = (None, []))
   \<and> (bytes_split sep data = Inl e \<longrightarrow>
        (iteration sep imdecode (RecvData data) :: 'o pass) =
          (None, [Log ERROR (UdpClientPy 89)]))
   \<and> (bytes_split sep data = Inr [cid, payload] \<and> utf8_decode cid = None \<longrightarrow>
        (iteration sep imdecode (RecvData data) :: 'o pass) =
          (None, [Log ERROR (UdpClientPy 89)]))
   \<and> (bytes_split sep data = Inr [cid, payload] \<and> utf8_decode cid = Some camera_id
        \<and> camera_id \<noteq> [65] \<and> camera_id \<noteq> [66] \<longrightarrow>
        (iteration sep imdecode (RecvData data) :: 'o pass) =
          (None,
           case imdecode payload of
             CvRaises \<Rightarrow> [Log ERROR (UdpClientPy 89)]
           | CvNone \<Rightarrow> []
           | CvImage fr \<Rightarrow> [Log WARNING (UdpClientPy 86)]))"
proof -
  have drop: "(\<forall>cid payload. bytes_split sep data = Inr [cid, payload] \<longrightarrow>
        utf8_decode cid \<noteq> Some [65] \<and> utf8_decode cid \<noteq> Some [66]) \<longrightarrow>
      filter is_frame_signal (snd (iteration sep imdecode (RecvData data) :: 'o pass)) = []"
    using no_frame_unless_known_camera [of sep data imdecode, where ?'o = 'o] by blast
  have safe: "fst (iteration sep imdecode (RecvData data) :: 'o pass) = None"
    by (rule iteration_never_raises)
  have goes_on:
    "(receive_frames sep imdecode (\<lparr>running = True, recv_outcome = RecvData data\<rparr> # ts)
        :: 'o loop_run) =
       (snd (iteration sep imdecode (RecvData data) :: 'o pass)
          @ fst (receive_frames sep imdecode ts :: 'o loop_run),
        snd (receive_frames sep imdecode ts :: 'o loop_run))"
    using receive_frames_step
      [of "\<lparr>running = True, recv_outcome = RecvData data\<rparr>" sep imdecode ts, where ?'o = 'o]
    by simp
  have silent: "bytes_split sep data = Inr parts \<and> length parts \<noteq> 2 \<longrightarrow>
        (iteration sep imdecode (RecvData data) :: 'o pass) = (None, [])"
    by (simp add: iteration_data handle_datagram_wrong_parts)
  have no_sep: "bytes_split sep data = Inl e \<longrightarrow>
        (iteration sep imdecode (RecvData data) :: 'o pass) =
          (None, [Log ERROR (UdpClientPy 89)])"
    by (simp add: iteration_data handle_datagram_def)
  have bad_name: "bytes_split sep data = Inr [cid, payload] \<and> utf8_decode cid = None \<longrightarrow>
        (iteration sep imdecode (RecvData data) :: 'o pass) =
          (None, [Log ERROR (UdpClientPy 89)])"
    by (simp add: iteration_data handle_datagram_two_parts)
  have unknown: "bytes_split sep data = Inr [cid, payload] \<and> utf8_decode cid = Some camera_id
        \<and> camera_id \<noteq> [65] \<and> camera_id \<noteq> [66] \<longrightarrow>
        (iteration sep imdecode (RecvData data) :: 'o pass) =
          (None,
           case imdecode payload of
             CvRaises \<Rightarrow> [Log ERROR (UdpClientPy 89)]
           | CvNone \<Rightarrow> []
           | CvImage fr \<Rightarrow> [Log WARNING (UdpClientPy 86)])"
    by (simp add: iteration_data handle_datagram_two_parts split: decoded.splits)
  from drop safe goes_on silent no_sep bad_name unknown show ?thesis by blast
qed

theorem C5_invalid_datagram_dropped_witness:
  "filter is_frame_signal (snd (iteration ''|'' example_imdecode (RecvData ''AB'') :: unit pass)) = []
   \<and> (iteration ''|'' example_imdecode (RecvData ''AB'') :: unit pass) = (None, [])
   \<and> (iteration [] example_imdecode (RecvData ''AB'') :: unit pass) =
       (None, [Log ERROR (UdpClientPy 89)])
   \<and> (iteration ''|'' example_imdecode (RecvData [CHR 0xFF, CHR ''|'', CHR ''x'']) :: unit pass) =
       (None, [Log ERROR (UdpClientPy 89)])
   \<and> (iteration ''|'' example_imdecode (RecvData ''C|img'') :: unit pass) =
       (None, [Log WARNING (UdpClientPy 86)])"
proof -
  have h1: "\<forall>cid payload. bytes_split ''|'' ''AB'' = Inr [cid, payload] \<longrightarrow>
              utf8_decode cid \<noteq> Some [65] \<and> utf8_decode cid \<noteq> Some [66]"
    by (simp add: bytes_split_def)
  have h2: "bytes_split ''|'' ''AB'' = Inr [''AB''] \<and> length [''AB''] \<noteq> 2"
    by (simp add: bytes_split_def)
  have h3: "bytes_split [] ''AB'' = Inl ValueError"
    by (simp add: bytes_split_def)
  have h4: "bytes_split ''|'' [CHR 0xFF, CHR ''|'', CHR ''x''] = Inr [[CHR 0xFF], ''x'']
            \<and> utf8_decode [CHR 0xFF] = None"
    by (simp add: bytes_split_def)
  have h5: "bytes_split ''|'' ''C|img'' = Inr [''C'', ''img'']
            \<and> utf8_decode ''C'' = Some [67] \<and> [67 :: nat] \<noteq> [65] \<and> [67 :: nat] \<noteq> [66]"
    by (simp add: bytes_split_def)
  have a: "filter is_frame_signal
             (snd (iteration ''|'' example_imdecode (RecvData ''AB'') :: unit pass)) = []"
    using h1 C5_invalid_datagram_dropped
      [where sep = "''|''" and data = "''AB''" and imdecode = example_imdecode and ?'o = unit]
    by blast
  have b: "(iteration ''|'' example_imdecode (RecvData ''AB'') :: unit pass) = (None, [])"
    using h2 C5_invalid_datagram_dropped
      [where sep = "''|''" and data = "''AB''" and imdecode = example_imdecode
         and parts = "[''AB'']" and ?'o = unit]
    by blast
  have c: "(iteration [] example_imdecode (RecvData ''AB'') :: unit pass) =
             (None, [Log ERROR (UdpClientPy 89)])"
    using h3 C5_invalid_datagram_dropped
      [where sep = "[]" and data = "''AB''" and imdecode = example_imdecode
         and e = ValueError and ?'o = unit]
    by blast
  have d: "(iteration ''|'' example_imdecode (RecvData [CHR 0xFF, CHR ''|'', CHR ''x''])
             :: unit pass) = (None, [Log ERROR (UdpClientPy 89)])"
    using h4 C5_invalid_datagram_dropped
      [where sep = "''|''" and data = "[CHR 0xFF, CHR ''|'', CHR ''x'']"
         and imdecode = example_imdecode and cid = "[CHR 0xFF]" and payload = "''x''"
         and ?'o = unit]
    by blast
  have "(iteration ''|'' example_imdecode (RecvData ''C|img'') :: unit pass) =
          (None,
           case example_imdecode ''img'' of
             CvRaises \<Rightarrow> [Log ERROR (UdpClientPy 89)]
           | CvNone \<Rightarrow> []
           | CvImage fr \<Rightarrow> [Log WARNING (UdpClientPy 86)])"
    using h5 C5_invalid_datagram_dropped
      [where sep = "''|''" and data = "''C|img''" and imdecode = example_imdecode
         and cid = "''C''" and payload = "''img''" and camera_id = "[67]" and ?'o = unit]
    by blast
  then have e: "(iteration ''|'' example_imdecode (RecvData ''C|img'') :: unit pass) =
          (None, [Log WARNING (UdpClientPy 86)])"
    by (simp add: example_imdecode_def)
  from a b c d e show ?thesis by blast
qed

subsection \<open>Map requests and the frame stream\<close>

lemma request_map_run:
  "(request_map s :: 'o run) =
     (Inl (AttributeError ''stop_streaming''), [TcpCall Tcp_request_map], s)"
  by (simp add: request_map_def udp_client_truth_value_def act_simps)

text \<open>
  C7.  The code at a failing input: a supervisor whose media client is bound and receiving,
  a CCTV approval, then a map request.  Both slots end with \<^verbatim>\<open>AttributeError\<close>
  (\<^verbatim>\<open>UdpClient\<close> defines neither \<^verbatim>\<open>is_connected\<close> nor \<^verbatim>\<open>stop_streaming\<close>) and
  leave the media client as it was.  The receive loop has no streaming gate: the datagram
  \<^verbatim>\<open>A|img\<close> that arrives after the map request is decoded and emitted as
  \<^verbatim>\<open>frame_a_received\<close>.  In every state \<^verbatim>\<open>request_map\<close> sends the request on the
  control channel and then raises.
\<close>

theorem C7_map_request_does_not_stop_frames:
  "(request_map s :: 'o run) =
     (Inl (AttributeError ''stop_streaming''), [TcpCall Tcp_request_map], s)
   \<and> state (request_map
              (state (handle_cctv_a_response ''OK'' AllOk streaming_supervisor :: unit run))
            :: unit run) = streaming_supervisor
   \<and> is_running (udp_client streaming_supervisor)
   \<and> (receive_frames ''|'' example_imdecode
         [\<lparr>running = is_running (udp_client streaming_supervisor),
           recv_outcome = RecvData ''A|img''\<rparr>] :: unit loop_run) =
       ([Emit_frame_a_received
           \<lparr>qi_data = [(CHR ''r'', CHR ''g'', CHR ''b'')], qi_width = 1, qi_height = 1,
            qi_bytes_per_line = 3\<rparr>],
        Looping)"
proof -
  have general: "(request_map s :: 'o run) =
      (Inl (AttributeError ''stop_streaming''), [TcpCall Tcp_request_map], s)"
    by (rule request_map_run)
  have scenario: "state (request_map
              (state (handle_cctv_a_response ''OK'' AllOk streaming_supervisor :: unit run))
            :: unit run) = streaming_supervisor"
    by (simp add: request_map_run handle_cctv_a_response_def act_simps)
  have on: "is_running (udp_client streaming_supervisor)"
    by (simp add: streaming_supervisor_def receiving_client_def)
  have frame: "(receive_frames ''|'' example_imdecode
         [\<lparr>running = is_running (udp_client streaming_supervisor),
           recv_outcome = RecvData ''A|img''\<rparr>] :: unit loop_run) =
       ([Emit_frame_a_received
           \<lparr>qi_data = [(CHR ''r'', CHR ''g'', CHR ''b'')], qi_width = 1, qi_height = 1,
            qi_bytes_per_line = 3\<rparr>],
        Looping)"
    by (simp add: on iteration_def handle_datagram_def bytes_split_def example_imdecode_def
          to_QImage_def cvtColor_BGR2RGB_def)
  from general scenario on frame show ?thesis by blast
qed

subsection \<open>Status events of the media client\<close>

lemma connect_no_status_signal:
  "filter is_udp_status_signal (fst (snd (connect os u :: bool \<times> 'o effect list \<times> UdpClient)))
     = []"
  by (cases os) simp_all

lemma iteration_no_status_signal:
  "filter is_udp_status_signal (snd (iteration sep imdecode r :: 'o pass)) = []"
  by (simp add: iteration_def handle_datagram_def Let_def is_Exception_all
        split: recv.splits sum.splits list.splits option.splits decoded.splits)

text \<open>
  C8.  The code on the three occasions the claim names.  A successful bind performs one
  effect, the log line 37; \<^verbatim>\<open>disconnect\<close> performs one, the log line 50; a socket
  error in the receive loop performs one, the log line 89.  No run of \<^verbatim>\<open>connect\<close>,
  of \<^verbatim>\<open>disconnect\<close> or of the loop body emits a status signal: \<^verbatim>\<open>UdpClient\<close>
  declares the two frame signals only.  The supervisor expects the signal:
  \<^verbatim>\<open>_connect_signals\<close> looks up \<^verbatim>\<open>connection_status_changed\<close> on the media client
  and raises \<^verbatim>\<open>AttributeError\<close>, and so does the constructor of the supervisor.
\<close>

theorem C8_media_client_emits_no_status:
  "(connect AllOk (UdpClient_init 5000) :: bool \<times> 'o effect list \<times> UdpClient) =
     (True, [Log INFO (UdpClientPy 37)], receiving_client)
   \<and> (disconnect receiving_client :: 'o effect list \<times> UdpClient) =
       ([Log INFO (UdpClientPy 50)], receiving_client\<lparr>is_running := False, socket := None\<rparr>)
   \<and> (iteration sep imdecode (RecvRaises OSError) :: 'o pass) =
       (None, [Log ERROR (UdpClientPy 89)])
   \<and> filter is_udp_status_signal
       (fst (snd (connect os u :: bool \<times> 'o effect list \<times> UdpClient))) = []
   \<and> filter is_udp_status_signal (fst (disconnect u :: 'o effect list \<times> UdpClient)) = []
   \<and> filter is_udp_status_signal (snd (iteration sep imdecode r :: 'o pass)) = []
   \<and> connect_signals = Inl (AttributeError ''connection_status_changed'')
   \<and> NetworkManager_init port interval_s max_attempts =
       Inl (AttributeError ''connection_status_changed'')"
proof -
  have ok: "(connect AllOk (UdpClient_init 5000) :: bool \<times> 'o effect list \<times> UdpClient) =
      (True, [Log INFO (UdpClientPy 37)], receiving_client)"
    by (simp add: UdpClient_init_def receiving_client_def)
  have off: "(disconnect receiving_client :: 'o effect list \<times> UdpClient) =
      ([Log INFO (UdpClientPy 50)], receiving_client\<lparr>is_running := False, socket := None\<rparr>)"
    by (simp add: disconnect_def receiving_client_def)
  have fatal: "(iteration sep imdecode (RecvRaises OSError) :: 'o pass) =
      (None, [Log ERROR (UdpClientPy 89)])"
    by (rule iteration_recv_raises)
  have never: "filter is_udp_status_signal
       (fst (snd (connect os u :: bool \<times> 'o effect list \<times> UdpClient))) = []
     \<and> filter is_udp_status_signal (fst (disconnect u :: 'o effect list \<times> UdpClient)) = []
     \<and> filter is_udp_status_signal (snd (iteration sep imdecode r :: 'o pass)) = []"
    by (simp add: connect_no_status_signal iteration_no_status_signal disconnect_def Let_def)
  have sig: "connect_signals = Inl (AttributeError ''connection_status_changed'')"
    by (simp add: connect_signals_def UdpClient_signal_def UdpClient_signals_def)
  have init: "NetworkManager_init port interval_s max_attempts =
      Inl (AttributeError ''connection_status_changed'')"
    by (simp add: NetworkManager_init_def sig)
  from ok off fatal never sig init show ?thesis by blast
qed

end
